theory Spec2Isabelle
  imports Complex_Main
begin

section \<open>JavaScript numbers\<close>

text \<open>
  The engine computes on JavaScript \<^verbatim>\<open>number\<close>s. The embedding keeps the special values
  (the two infinities and NaN), and zero carries no sign (it behaves as +0, so
  \<^verbatim>\<open>1/0\<close> is +Infinity). The operators \<^verbatim>\<open>+ - * /\<close> and the \<^verbatim>\<open>Math\<close> functions below
  compute on exact reals; rounding to binary64 is a separate step, \<^verbatim>\<open>rnd\<close>, applied after
  each operation where a property depends on it, which is the case of the
  O'Brien-Fleming bound of the sequential calculator.
\<close>

datatype jsnum = Fin real | PInf | NInf | NaN

definition inf_of_sign :: "real \<Rightarrow> jsnum" where
  "inf_of_sign s = (if 0 < s then PInf else if s < 0 then NInf else NaN)"

instantiation jsnum :: "{plus, minus, uminus, times, inverse, ord}"
begin

fun uminus_jsnum :: "jsnum \<Rightarrow> jsnum" where
  "uminus_jsnum (Fin a) = Fin (- a)"
| "uminus_jsnum PInf = NInf"
| "uminus_jsnum NInf = PInf"
| "uminus_jsnum NaN = NaN"

fun plus_jsnum :: "jsnum \<Rightarrow> jsnum \<Rightarrow> jsnum" where
  "plus_jsnum (Fin a) (Fin b) = Fin (a + b)"
| "plus_jsnum NaN _ = NaN"
| "plus_jsnum _ NaN = NaN"
| "plus_jsnum PInf NInf = NaN"
| "plus_jsnum NInf PInf = NaN"
| "plus_jsnum PInf _ = PInf"
| "plus_jsnum _ PInf = PInf"
| "plus_jsnum NInf _ = NInf"
| "plus_jsnum _ NInf = NInf"

definition minus_jsnum :: "jsnum \<Rightarrow> jsnum \<Rightarrow> jsnum" where
  "minus_jsnum a b = a + (- b)"

fun times_jsnum :: "jsnum \<Rightarrow> jsnum \<Rightarrow> jsnum" where
  "times_jsnum (Fin a) (Fin b) = Fin (a * b)"
| "times_jsnum NaN _ = NaN"
| "times_jsnum _ NaN = NaN"
| "times_jsnum (Fin a) PInf = inf_of_sign a"
| "times_jsnum (Fin a) NInf = inf_of_sign (- a)"
| "times_jsnum PInf (Fin b) = inf_of_sign b"
| "times_jsnum NInf (Fin b) = inf_of_sign (- b)"
| "times_jsnum PInf PInf = PInf"
| "times_jsnum NInf NInf = PInf"
| "times_jsnum PInf NInf = NInf"
| "times_jsnum NInf PInf = NInf"

fun divide_jsnum :: "jsnum \<Rightarrow> jsnum \<Rightarrow> jsnum" where
  "divide_jsnum (Fin a) (Fin b) = (if b \<noteq> 0 then Fin (a / b) else inf_of_sign a)"
| "divide_jsnum NaN _ = NaN"
| "divide_jsnum _ NaN = NaN"
| "divide_jsnum (Fin a) PInf = Fin 0"
| "divide_jsnum (Fin a) NInf = Fin 0"
| "divide_jsnum PInf (Fin b) = (if 0 \<le> b then PInf else NInf)"
| "divide_jsnum NInf (Fin b) = (if 0 \<le> b then NInf else PInf)"
| "divide_jsnum PInf PInf = NaN"
| "divide_jsnum PInf NInf = NaN"
| "divide_jsnum NInf PInf = NaN"
| "divide_jsnum NInf NInf = NaN"

definition inverse_jsnum :: "jsnum \<Rightarrow> jsnum" where
  "inverse_jsnum a = divide (Fin 1) a"

fun less_jsnum :: "jsnum \<Rightarrow> jsnum \<Rightarrow> bool" where
  "less_jsnum (Fin a) (Fin b) = (a < b)"
| "less_jsnum NaN _ = False"
| "less_jsnum _ NaN = False"
| "less_jsnum PInf _ = False"
| "less_jsnum _ NInf = False"
| "less_jsnum NInf _ = True"
| "less_jsnum _ PInf = True"

definition less_eq_jsnum :: "jsnum \<Rightarrow> jsnum \<Rightarrow> bool" where
  "less_eq_jsnum a b = (a < b \<or> (a = b \<and> a \<noteq> NaN))"

instance ..

end

text \<open>Strict equality \<^verbatim>\<open>===\<close>: NaN equals nothing, itself included.\<close>

definition jeq :: "jsnum \<Rightarrow> jsnum \<Rightarrow> bool" where
  "jeq a b = (a = b \<and> a \<noteq> NaN)"

subsection \<open>The Math object\<close>

fun Math_abs :: "jsnum \<Rightarrow> jsnum" where
  "Math_abs (Fin a) = Fin \<bar>a\<bar>"
| "Math_abs PInf = PInf"
| "Math_abs NInf = PInf"
| "Math_abs NaN = NaN"

fun Math_sqrt :: "jsnum \<Rightarrow> jsnum" where
  "Math_sqrt (Fin a) = (if a < 0 then NaN else Fin (sqrt a))"
| "Math_sqrt PInf = PInf"
| "Math_sqrt NInf = NaN"
| "Math_sqrt NaN = NaN"

fun Math_log :: "jsnum \<Rightarrow> jsnum" where
  "Math_log (Fin a) = (if a < 0 then NaN else if a = 0 then NInf else Fin (ln a))"
| "Math_log PInf = PInf"
| "Math_log NInf = NaN"
| "Math_log NaN = NaN"

fun Math_exp :: "jsnum \<Rightarrow> jsnum" where
  "Math_exp (Fin a) = Fin (exp a)"
| "Math_exp PInf = PInf"
| "Math_exp NInf = Fin 0"
| "Math_exp NaN = NaN"

fun Math_ceil :: "jsnum \<Rightarrow> jsnum" where
  "Math_ceil (Fin a) = Fin (of_int \<lceil>a\<rceil>)"
| "Math_ceil x = x"

fun Math_asin :: "jsnum \<Rightarrow> jsnum" where
  "Math_asin (Fin a) = (if \<bar>a\<bar> \<le> 1 then Fin (arcsin a) else NaN)"
| "Math_asin x = NaN"

definition Math_max :: "jsnum \<Rightarrow> jsnum \<Rightarrow> jsnum" where
  "Math_max a b = (if a = NaN \<or> b = NaN then NaN else if a < b then b else a)"

definition Math_min :: "jsnum \<Rightarrow> jsnum \<Rightarrow> jsnum" where
  "Math_min a b = (if a = NaN \<or> b = NaN then NaN else if b < a then b else a)"

text \<open>
  \<^verbatim>\<open>Math.pow(base, exponent)\<close>: 1 for exponent 0 whatever the base, NaN for a NaN
  exponent or base and for a negative base under a fractional exponent, and the limits
  at zero and at the infinities.
\<close>

definition odd_integer :: "real \<Rightarrow> bool" where
  "odd_integer y = (y = of_int \<lfloor>y\<rfloor> \<and> odd \<lfloor>y\<rfloor>)"

fun pow_finite :: "jsnum \<Rightarrow> real \<Rightarrow> jsnum" where
  "pow_finite NaN y = NaN"
| "pow_finite PInf y = (if 0 < y then PInf else Fin 0)"
| "pow_finite NInf y = (if 0 < y then (if odd_integer y then NInf else PInf) else Fin 0)"
| "pow_finite (Fin b) y =
     (if b = 0 then (if 0 < y then Fin 0 else PInf)
      else if 0 < b then Fin (b powr y)
      else if y \<noteq> of_int \<lfloor>y\<rfloor> then NaN
      else if odd \<lfloor>y\<rfloor> then Fin (- (\<bar>b\<bar> powr y))
      else Fin (\<bar>b\<bar> powr y))"

fun Math_pow :: "jsnum \<Rightarrow> jsnum \<Rightarrow> jsnum" where
  "Math_pow b NaN = NaN"
| "Math_pow b (Fin y) = (if y = 0 then Fin 1 else pow_finite b y)"
| "Math_pow b PInf =
     (if b = NaN \<or> Math_abs b = Fin 1 then NaN
      else if Fin 1 < Math_abs b then PInf else Fin 0)"
| "Math_pow b NInf =
     (if b = NaN \<or> Math_abs b = Fin 1 then NaN
      else if Fin 1 < Math_abs b then Fin 0 else PInf)"

subsection \<open>Rounding to binary64\<close>

text \<open>
  IEEE 754 round-to-nearest, ties to even, on binary64: \<^verbatim>\<open>rne\<close> rounds to the nearest
  integer, \<^verbatim>\<open>ulp64\<close> is the spacing of the doubles at a magnitude (subnormals share the
  spacing of the smallest normal binade), \<^verbatim>\<open>rmag\<close> rounds a magnitude, and
  \<^verbatim>\<open>round64\<close> a real, overflowing to the infinities from \<^verbatim>\<open>huge64 = 2^1024\<close>. \<^verbatim>\<open>rnd\<close> rounds the
  finite result of an operation.
\<close>

definition rne :: "real \<Rightarrow> int" where
  "rne y =
    (let f = \<lfloor>y\<rfloor>
     in if y - of_int f < 1 / 2 then f
        else if 1 / 2 < y - of_int f then f + 1
        else if even f then f else f + 1)"

definition ulp64 :: "real \<Rightarrow> real" where
  "ulp64 x = 2 powr (of_int (max \<lfloor>log 2 x\<rfloor> (- 1022)) - 52)"

definition rmag :: "real \<Rightarrow> real" where
  "rmag x = of_int (rne (x / ulp64 x)) * ulp64 x"

definition huge64 :: real where
  "huge64 = 2 ^ 1024"

definition round64 :: "real \<Rightarrow> jsnum" where
  "round64 x =
    (let y = rmag \<bar>x\<bar>
     in if huge64 \<le> y then (if 0 < x then PInf else NInf)
        else Fin (if 0 \<le> x then y else - y))"

fun rnd :: "jsnum \<Rightarrow> jsnum" where
  "rnd (Fin x) = round64 x"
| "rnd x = x"

section \<open>DistributionMath\<close>

text \<open>
  \<^verbatim>\<open>erf\<close> of utils/statisticalCalculations; the calculators carry identical private
  copies of it.
\<close>

definition erf :: "jsnum \<Rightarrow> jsnum" where
  "erf x0 =
    (let a1 = Fin 0.254829592;
         a2 = Fin (- 0.284496736);
         a3 = Fin 1.421413741;
         a4 = Fin (- 1.453152027);
         a5 = Fin 1.061405429;
         p = Fin 0.3275911;
         sign = (if x0 \<ge> Fin 0 then Fin 1 else Fin (- 1));
         x = Math_abs x0;
         t = Fin 1.0 / (Fin 1.0 + p * x);
         y = Fin 1.0 - (((((a5 * t + a4) * t) + a3) * t + a2) * t + a1) * t * Math_exp (- x * x)
     in sign * y)"

definition normalCDF :: "jsnum \<Rightarrow> jsnum" where
  "normalCDF x = Fin 0.5 * (Fin 1 + erf (x / Math_sqrt (Fin 2)))"


text \<open>
  \<^verbatim>\<open>normalInverse\<close> of utils/statisticalCalculations (Acklam's rational approximation);
  PowerAnalysisCalculator and SampleSizeCalculator carry identical private copies. It has
  no guard on its argument.
\<close>

definition normalInverse :: "jsnum \<Rightarrow> jsnum" where
  "normalInverse p =
    (let a = [Fin 0, Fin (- 39.69683028665376), Fin 220.9460984245205,
              Fin (- 275.9285104469687), Fin 138.3577518672690,
              Fin (- 30.66479806614716), Fin 2.506628277459239];
         b = [Fin 0, Fin (- 54.47609879822406), Fin 161.5858368580409,
              Fin (- 155.6989798598866), Fin 66.80131188771972,
              Fin (- 13.28068155288572)];
         c = [Fin 0, Fin (- 0.007784894002430293), Fin (- 0.3223964580411365),
              Fin (- 2.400758277161838), Fin (- 2.549732539343734),
              Fin 4.374664141464968, Fin 2.938163982698783];
         d = [Fin 0, Fin 0.007784695709041462, Fin 0.3224671290700398,
              Fin 2.445134137142996, Fin 3.754408661907416];
         pLow = Fin 0.02425;
         pHigh = Fin 1 - pLow
     in if p < pLow then
          (let q = Math_sqrt (Fin (- 2) * Math_log p)
           in (((((c ! 1 * q + c ! 2) * q + c ! 3) * q + c ! 4) * q + c ! 5) * q + c ! 6) /
              ((((d ! 1 * q + d ! 2) * q + d ! 3) * q + d ! 4) * q + Fin 1))
        else if p \<le> pHigh then
          (let q = p - Fin 0.5;
               r = q * q
           in (((((a ! 1 * r + a ! 2) * r + a ! 3) * r + a ! 4) * r + a ! 5) * r + a ! 6) * q /
              (((((b ! 1 * r + b ! 2) * r + b ! 3) * r + b ! 4) * r + b ! 5) * r + Fin 1))
        else
          (let q = Math_sqrt (Fin (- 2) * Math_log (Fin 1 - p))
           in (- (((((c ! 1 * q + c ! 2) * q + c ! 3) * q + c ! 4) * q + c ! 5) * q + c ! 6)) /
              ((((d ! 1 * q + d ! 2) * q + d ! 3) * q + d ! 4) * q + Fin 1)))"

section \<open>PowerSolver: the designer's helpers (utils/statisticalCalculations)\<close>

definition calculateSampleSize :: "jsnum \<Rightarrow> jsnum \<Rightarrow> jsnum \<Rightarrow> jsnum \<Rightarrow> jsnum" where
  "calculateSampleSize baselineRate effectSize power_arg alpha =
    (let p1 = baselineRate / Fin 100;
         p2 = p1 * (Fin 1 + effectSize / Fin 100);
         z_alpha = Fin 1.96;
         z_beta = (if jeq power_arg (Fin 80) then Fin 0.84
                   else if jeq power_arg (Fin 90) then Fin 1.28 else Fin 0.67);
         pooledP = (p1 + p2) / Fin 2;
         n = Math_pow (z_alpha * Math_sqrt (Fin 2 * pooledP * (Fin 1 - pooledP)) +
                       z_beta * Math_sqrt (p1 * (Fin 1 - p1) + p2 * (Fin 1 - p2))) (Fin 2) /
             Math_pow (p2 - p1) (Fin 2)
     in Math_ceil n)"

definition calculateBonferroniAdjustment :: "jsnum \<Rightarrow> jsnum \<Rightarrow> jsnum" where
  "calculateBonferroniAdjustment numComparisons alpha = alpha / numComparisons"


section \<open>MultiVariantDesigner (types/experiment, constants/experimentDefaults, ExperimentDesigner)\<close>

record ExperimentVariant =
  id_v :: string
  name_v :: string
  description_v :: string
  trafficAllocation :: jsnum
  expectedConversionRate :: jsnum
  isControl :: bool

record Segmentation =
  enabled :: bool
  segments :: "string list"

record ExperimentConfig =
  name_cfg :: string
  description_cfg :: string
  hypothesis :: string
  primaryMetric :: string
  secondaryMetrics :: "string list"
  variants :: "ExperimentVariant list"
  totalTrafficAllocation :: jsnum
  minimumDetectableEffect :: jsnum
  power_cfg :: jsnum
  significance :: jsnum
  estimatedDuration :: jsnum
  segmentation :: Segmentation
  successCriteria :: string

record DesignAnalysis =
  totalSampleSize :: jsnum
  sampleSizePerVariant :: "string \<rightharpoonup> jsnum"
  expectedDuration :: jsnum
  powerAnalysis :: "string \<rightharpoonup> jsnum"
  multipleComparisonsAdjustment :: jsnum
  estimatedCost :: jsnum

definition DEFAULT_EXPERIMENT_CONFIG :: ExperimentConfig where
  "DEFAULT_EXPERIMENT_CONFIG =
    \<lparr>name_cfg = [], description_cfg = [], hypothesis = [],
     primaryMetric = ''conversion_rate'', secondaryMetrics = [],
     variants =
       [\<lparr>id_v = ''control'', name_v = ''Control (A)'', description_v = ''Current version'',
         trafficAllocation = Fin 50, expectedConversionRate = Fin 5, isControl = True\<rparr>,
        \<lparr>id_v = ''treatment'', name_v = ''Treatment (B)'', description_v = ''New version'',
         trafficAllocation = Fin 50, expectedConversionRate = Fin 6, isControl = False\<rparr>],
     totalTrafficAllocation = Fin 100, minimumDetectableEffect = Fin 20,
     power_cfg = Fin 80, significance = Fin 95, estimatedDuration = Fin 14,
     segmentation = \<lparr>enabled = False, segments = []\<rparr>, successCriteria = []\<rparr>"

text \<open>
  The body of the \<^verbatim>\<open>treatmentVariants.forEach\<close> of \<^verbatim>\<open>performDesignAnalysis\<close>, on the three
  locals it updates: the two dictionaries and \<^verbatim>\<open>maxSampleSize\<close>.
\<close>

definition design_step ::
  "ExperimentConfig \<Rightarrow> ExperimentVariant \<Rightarrow> jsnum \<Rightarrow>
   (string \<rightharpoonup> jsnum) \<times> (string \<rightharpoonup> jsnum) \<times> jsnum \<Rightarrow> ExperimentVariant \<Rightarrow>
   (string \<rightharpoonup> jsnum) \<times> (string \<rightharpoonup> jsnum) \<times> jsnum" where
  "design_step config controlVariant adjustedAlpha acc variant =
    (case acc of (sizes, powers, maxSampleSize) \<Rightarrow>
      (let effectSize =
             ((expectedConversionRate variant - expectedConversionRate controlVariant) /
               expectedConversionRate controlVariant) * Fin 100;
           sampleSize =
             calculateSampleSize (expectedConversionRate controlVariant) (Math_abs effectSize)
               (power_cfg config) adjustedAlpha
       in (sizes(id_v variant \<mapsto> sampleSize, id_v controlVariant \<mapsto> sampleSize),
           powers(id_v variant \<mapsto> power_cfg config),
           Math_max maxSampleSize sampleSize)))"

definition zero_analysis :: DesignAnalysis where
  "zero_analysis =
    \<lparr>totalSampleSize = Fin 0, sampleSizePerVariant = Map.empty, expectedDuration = Fin 0,
     powerAnalysis = Map.empty, multipleComparisonsAdjustment = Fin 0, estimatedCost = Fin 0\<rparr>"

text \<open>
  \<^verbatim>\<open>performDesignAnalysis\<close>, with the component state it reads (\<^verbatim>\<open>config\<close>,
  \<^verbatim>\<open>dailyTraffic\<close>, \<^verbatim>\<open>costPerVisitor\<close>) as parameters. It has no error outcome: its only
  guard is the missing control variant.
\<close>

definition performDesignAnalysis :: "ExperimentConfig \<Rightarrow> jsnum \<Rightarrow> jsnum \<Rightarrow> DesignAnalysis" where
  "performDesignAnalysis config dailyTraffic costPerVisitor =
    (let treatmentVariants = filter (\<lambda>v. \<not> isControl v) (variants config)
     in case find isControl (variants config) of
          None \<Rightarrow> zero_analysis
        | Some controlVariant \<Rightarrow>
           (let alpha = (Fin 100 - significance config) / Fin 100;
                numComparisons = Fin (real (length treatmentVariants));
                adjustedAlpha = calculateBonferroniAdjustment numComparisons alpha;
                acc = foldl (design_step config controlVariant adjustedAlpha)
                        (Map.empty, Map.empty, Fin 0) treatmentVariants;
                maxSampleSize = snd (snd acc);
                totalSampleSize = maxSampleSize * Fin (real (length (variants config)));
                adjustedTotalSample = totalSampleSize / (totalTrafficAllocation config / Fin 100);
                expectedDuration = Math_ceil (adjustedTotalSample / dailyTraffic);
                estimatedCost = adjustedTotalSample * costPerVisitor
            in \<lparr>totalSampleSize = adjustedTotalSample,
                sampleSizePerVariant = fst acc,
                expectedDuration = expectedDuration,
                powerAnalysis = fst (snd acc),
                multipleComparisonsAdjustment = adjustedAlpha,
                estimatedCost = estimatedCost\<rparr>))"

text \<open>
  The two effects of the component: the first keeps \<^verbatim>\<open>totalTrafficAllocation\<close> equal to the
  sum of the variants' allocations, the second recomputes the analysis when there are at
  least two variants and leaves the previous one otherwise.
\<close>

definition updateTotalAllocation :: "ExperimentConfig \<Rightarrow> ExperimentConfig" where
  "updateTotalAllocation config =
    config\<lparr>totalTrafficAllocation :=
      foldl (\<lambda>sum v. sum + trafficAllocation v) (Fin 0) (variants config)\<rparr>"

definition analysisEffect ::
  "ExperimentConfig \<Rightarrow> jsnum \<Rightarrow> jsnum \<Rightarrow> DesignAnalysis option \<Rightarrow> DesignAnalysis option" where
  "analysisEffect config dailyTraffic costPerVisitor analysis =
    (if length (variants config) \<ge> 2
     then Some (performDesignAnalysis config dailyTraffic costPerVisitor)
     else analysis)"

section \<open>PowerSolver (PowerAnalysisCalculator)\<close>

text \<open>
  The calculator's functions take the component state they read (\<^verbatim>\<open>baselineRate\<close>,
  \<^verbatim>\<open>testType\<close>) as leading parameters.
\<close>

definition calculatePower :: "jsnum \<Rightarrow> string \<Rightarrow> jsnum \<Rightarrow> jsnum \<Rightarrow> jsnum \<Rightarrow> jsnum" where
  "calculatePower baselineRate testType n effect alpha =
    (let p1 = baselineRate / Fin 100;
         p2 = p1 * (Fin 1 + effect / Fin 100);
         pooledP = (p1 + p2) / Fin 2;
         se = Math_sqrt (pooledP * (Fin 1 - pooledP) * (Fin 2 / n));
         z_alpha = normalInverse (Fin 1 - alpha / (if testType = ''two-tailed'' then Fin 2 else Fin 1));
         z_beta = (Math_abs (p2 - p1) - z_alpha * se) /
                  Math_sqrt ((p1 * (Fin 1 - p1) + p2 * (Fin 1 - p2)) / n)
     in normalCDF z_beta * Fin 100)"

text \<open>
  The \<^verbatim>\<open>while\<close> loop of \<^verbatim>\<open>calculateMinimumEffect\<close> on its three variables
  \<^verbatim>\<open>(minEffect, maxEffect, iterations)\<close>; it returns their values at exit.
\<close>

function bisect_loop ::
  "jsnum \<Rightarrow> string \<Rightarrow> jsnum \<Rightarrow> jsnum \<Rightarrow> jsnum \<Rightarrow> jsnum \<times> jsnum \<times> nat \<Rightarrow> jsnum \<times> jsnum \<times> nat" where
  "bisect_loop baselineRate testType n targetPower alpha (minEffect, maxEffect, iterations) =
    (if Fin 0.1 < maxEffect - minEffect \<and> iterations < 50 then
       (let midEffect = (minEffect + maxEffect) / Fin 2;
            calculatedPower = calculatePower baselineRate testType n midEffect alpha
        in if calculatedPower < targetPower
           then bisect_loop baselineRate testType n targetPower alpha
                  (midEffect, maxEffect, iterations + 1)
           else bisect_loop baselineRate testType n targetPower alpha
                  (minEffect, midEffect, iterations + 1))
     else (minEffect, maxEffect, iterations))"
  by pat_completeness auto
termination
  by (relation "measure (\<lambda>(baselineRate, testType, n, targetPower, alpha, minEffect, maxEffect, iterations).
        50 - iterations)") auto

declare bisect_loop.simps [simp del]

definition calculateMinimumEffect :: "jsnum \<Rightarrow> string \<Rightarrow> jsnum \<Rightarrow> jsnum \<Rightarrow> jsnum \<Rightarrow> jsnum" where
  "calculateMinimumEffect baselineRate testType n targetPower alpha =
    (case bisect_loop baselineRate testType n targetPower alpha (Fin 1, Fin 100, 0) of
       (minEffect, maxEffect, iterations) \<Rightarrow> (minEffect + maxEffect) / Fin 2)"


section \<open>TwoSampleTest (SignificanceTestCalculator)\<close>

record SignificanceResult =
  isSignificant :: bool
  pValue :: jsnum
  zScore :: jsnum
  confidenceInterval :: "jsnum \<times> jsnum"
  effectSize :: jsnum
  relativeImprovement :: jsnum
  conversionRateA :: jsnum
  conversionRateB :: jsnum
  standardError :: jsnum
  powerAchieved :: jsnum

text \<open>
  \<^verbatim>\<open>calculateSignificance\<close>, with the five state variables it reads as parameters.
\<close>

definition calculateSignificance ::
  "jsnum \<Rightarrow> jsnum \<Rightarrow> jsnum \<Rightarrow> jsnum \<Rightarrow> jsnum \<Rightarrow> SignificanceResult" where
  "calculateSignificance visitorsA conversionsA visitorsB conversionsB confidenceLevel =
    (let pA = conversionsA / visitorsA;
         pB = conversionsB / visitorsB;
         pooledP = (conversionsA + conversionsB) / (visitorsA + visitorsB);
         pooledSE = Math_sqrt (pooledP * (Fin 1 - pooledP) * (Fin 1 / visitorsA + Fin 1 / visitorsB));
         zScore = (pB - pA) / pooledSE;
         pValue = Fin 2 * (Fin 1 - normalCDF (Math_abs zScore));
         alpha = (Fin 100 - confidenceLevel) / Fin 100;
         isSignificant = pValue < alpha;
         seForCI = Math_sqrt ((pA * (Fin 1 - pA) / visitorsA) + (pB * (Fin 1 - pB) / visitorsB));
         zCrit = Fin 1.96;
         margin = zCrit * seForCI;
         confidenceInterval = ((pB - pA - margin) * Fin 100, (pB - pA + margin) * Fin 100);
         effectSize = Fin 2 * (Math_asin (Math_sqrt pB) - Math_asin (Math_sqrt pA));
         relativeImprovement = (if Fin 0 < pA then ((pB - pA) / pA) * Fin 100 else Fin 0);
         powerZ = Math_abs zScore - Fin 1.96;
         powerAchieved = normalCDF powerZ * Fin 100
     in \<lparr>isSignificant = isSignificant,
         pValue = pValue,
         zScore = zScore,
         confidenceInterval = confidenceInterval,
         effectSize = effectSize,
         relativeImprovement = relativeImprovement,
         conversionRateA = pA * Fin 100,
         conversionRateB = pB * Fin 100,
         standardError = pooledSE,
         powerAchieved = Math_max (Fin 0) (Math_min (Fin 100) powerAchieved)\<rparr>)"

section \<open>SequentialMonitor (SequentialTestingCalculator)\<close>

text \<open>
  \<^verbatim>\<open>getOBrienFlemingBound\<close>, with the result of each of its operations rounded to
  binary64: the division by 2, the logarithm, the product, the two square roots and the
  quotient. \<^verbatim>\<open>Math.sqrt\<close> and the arithmetic are correctly rounded by IEEE 754;
  \<^verbatim>\<open>Math.log\<close> is taken as correctly rounded too (it enters only the numerator, which
  does not depend on \<^verbatim>\<open>t\<close>).
\<close>

definition getOBrienFlemingBound :: "jsnum \<Rightarrow> jsnum \<Rightarrow> jsnum" where
  "getOBrienFlemingBound t alpha =
    rnd (rnd (Math_sqrt (rnd (Fin (- 2) * rnd (Math_log (rnd (alpha / Fin 2)))))) /
         rnd (Math_sqrt t))"

definition getPocockBound :: "jsnum \<Rightarrow> jsnum \<Rightarrow> jsnum" where
  "getPocockBound alpha maxAnalyses = (let c = Fin 2.024 in c)"

text \<open>
  The calculator's own \<^verbatim>\<open>normalInverse\<close>: a shorter approximation than the one of
  utils/statisticalCalculations, with explicit guards at the ends of the unit interval.
\<close>

definition seq_normalInverse :: "jsnum \<Rightarrow> jsnum" where
  "seq_normalInverse p =
    (let a = [Fin 0, Fin (- 39.69683028665376), Fin 220.9460984245205,
              Fin (- 275.9285104469687), Fin 138.3577518672690,
              Fin (- 30.66479806614716), Fin 2.506628277459239];
         b = [Fin 0, Fin (- 54.47609879822406), Fin 161.5858368580409,
              Fin (- 155.6989798598866), Fin 66.80131188771972,
              Fin (- 13.28068155288572)]
     in if p \<le> Fin 0 then NInf
        else if p \<ge> Fin 1 then PInf
        else if jeq p (Fin 0.5) then Fin 0
        else
          (let sign = (if p < Fin 0.5 then Fin (- 1) else Fin 1);
               r = (if p < Fin 0.5 then p else Fin 1 - p);
               t = Math_sqrt (Fin (- 2) * Math_log r);
               x = t - ((a ! 2 + a ! 1 * t) / (Fin 1 + b ! 1 * t + b ! 2 * t * t))
           in sign * x))"

definition getWangTsiatiBound :: "jsnum \<Rightarrow> jsnum \<Rightarrow> jsnum \<Rightarrow> jsnum" where
  "getWangTsiatiBound t alpha delta =
    (let phi = seq_normalInverse (Fin 1 - alpha / Fin 2)
     in phi * Math_pow t (delta - Fin 0.5))"

datatype recommendation = continue | stop_success | stop_futility | stop_harm

record SequentialBounds =
  upper :: jsnum
  lower :: jsnum
  futility :: jsnum

text \<open>
  The \<^verbatim>\<open>if\<close> chain of \<^verbatim>\<open>performSequentialAnalysis\<close> that sets \<^verbatim>\<open>recommendation\<close>, as a
  function of the four values it reads.
\<close>

definition recommend :: "jsnum \<Rightarrow> SequentialBounds \<Rightarrow> bool \<Rightarrow> bool \<Rightarrow> recommendation" where
  "recommend currentZ bounds enableHarm enableFutility =
    (if currentZ \<ge> upper bounds then stop_success
     else if currentZ \<le> lower bounds then (if enableHarm then stop_harm else continue)
     else if enableFutility \<and> currentZ \<le> futility bounds then stop_futility
     else continue)"

text \<open>The state of the component, as its functions read it.\<close>

record SequentialState =
  currentSampleSize :: jsnum
  maxSampleSize :: jsnum
  controlConversions :: jsnum
  treatmentConversions :: jsnum
  alpha :: jsnum
  beta :: jsnum
  minimumEffect :: jsnum
  enableFutility :: bool
  enableHarm :: bool
  boundaryType :: string

definition calculateSequentialBounds :: "SequentialState \<Rightarrow> jsnum \<Rightarrow> jsnum \<Rightarrow> SequentialBounds" where
  "calculateSequentialBounds st n nMax =
    (let t = n / nMax;
         upperBound =
           (if boundaryType st = ''obrien-fleming'' then getOBrienFlemingBound t (alpha st)
            else if boundaryType st = ''pocock'' then getPocockBound (alpha st) (Fin 5)
            else if boundaryType st = ''wang-tsiatis'' then getWangTsiatiBound t (alpha st) (Fin 0.25)
            else seq_normalInverse (Fin 1 - alpha st / Fin 2));
         lowerBound = - upperBound;
         futilityBound = (if enableFutility st then seq_normalInverse (beta st) else NInf)
     in \<lparr>upper = upperBound, lower = lowerBound, futility = futilityBound\<rparr>)"

definition calculateCurrentZScore :: "SequentialState \<Rightarrow> jsnum" where
  "calculateCurrentZScore st =
    (let n = currentSampleSize st / Fin 2;
         pControl = controlConversions st / n;
         pTreatment = treatmentConversions st / n;
         pooledP = (controlConversions st + treatmentConversions st) / currentSampleSize st;
         se = Math_sqrt (pooledP * (Fin 1 - pooledP) * (Fin 2 / n))
     in if jeq se (Fin 0) then Fin 0
        else (pTreatment - pControl) / se)"

definition calculateProbabilityOfSuccess :: "SequentialState \<Rightarrow> jsnum \<Rightarrow> SequentialBounds \<Rightarrow> jsnum" where
  "calculateProbabilityOfSuccess st currentZ bounds =
    (let remainingInformation = Fin 1 - (currentSampleSize st / maxSampleSize st);
         drift = currentZ * Math_sqrt (currentSampleSize st / maxSampleSize st)
     in if remainingInformation \<le> Fin 0 then (if currentZ > upper bounds then Fin 1 else Fin 0)
        else
          (let adjustedUpperBound = upper bounds * Math_sqrt (Fin 1 - remainingInformation);
               adjustedZ = currentZ + drift * Math_sqrt remainingInformation
           in Fin 1 - normalCDF (adjustedUpperBound - adjustedZ)))"

text \<open>
  A point of the boundary history; \<^verbatim>\<open>zScore\<close> is the optional field, set on the points
  within one step of the current sample size.
\<close>

record BoundaryPoint =
  n_pt :: jsnum
  upperBound :: jsnum
  lowerBound :: jsnum
  futilityBound :: jsnum
  zScore_pt :: "jsnum option"

definition generateBoundaryHistory :: "SequentialState \<Rightarrow> BoundaryPoint list" where
  "generateBoundaryHistory st =
    (let steps = Fin 20
     in map (\<lambda>i.
          (let n = (maxSampleSize st * Fin (real i)) / steps;
               bounds = calculateSequentialBounds st n (maxSampleSize st)
           in \<lparr>n_pt = n, upperBound = upper bounds, lowerBound = lower bounds,
               futilityBound = futility bounds,
               zScore_pt =
                 (if Math_abs (n - currentSampleSize st) < maxSampleSize st / steps
                  then Some (calculateCurrentZScore st) else None)\<rparr>))
        [1 ..< 21])"

record SequentialResult =
  currentZ :: jsnum
  currentP :: jsnum
  bounds :: SequentialBounds
  recommendation :: recommendation
  probabilityOfSuccess :: jsnum
  expectedSampleSize :: jsnum
  boundaryHistory :: "BoundaryPoint list"

definition performSequentialAnalysis :: "SequentialState \<Rightarrow> SequentialResult" where
  "performSequentialAnalysis st =
    (let currentZ = calculateCurrentZScore st;
         bounds = calculateSequentialBounds st (currentSampleSize st) (maxSampleSize st);
         currentP = Fin 2 * (Fin 1 - normalCDF (Math_abs currentZ));
         recommendation = recommend currentZ bounds (enableHarm st) (enableFutility st);
         probabilityOfSuccess = calculateProbabilityOfSuccess st currentZ bounds;
         expectedSampleSize =
           currentSampleSize st +
           (maxSampleSize st - currentSampleSize st) * (Fin 1 - probabilityOfSuccess)
     in \<lparr>currentZ = currentZ, currentP = currentP, bounds = bounds,
         recommendation = recommendation,
         probabilityOfSuccess = probabilityOfSuccess,
         expectedSampleSize = expectedSampleSize,
         boundaryHistory = generateBoundaryHistory st\<rparr>)"

section \<open>The closed form of the specification\<close>

text \<open>
  The sample-size formula as the specification writes it, with the two quantiles as
  parameters, and the table the designer's helper reads its power quantile from. They are
  stated from the specification's words, to be compared with \<^const>\<open>calculateSampleSize\<close>.
\<close>

definition closed_form_n :: "jsnum \<Rightarrow> jsnum \<Rightarrow> jsnum \<Rightarrow> jsnum \<Rightarrow> jsnum" where
  "closed_form_n z_alpha z_beta p1 p2 =
    Math_ceil
      (Math_pow (z_alpha * Math_sqrt (Fin 2 * ((p1 + p2) / Fin 2) * (Fin 1 - (p1 + p2) / Fin 2)) +
                 z_beta * Math_sqrt (p1 * (Fin 1 - p1) + p2 * (Fin 1 - p2))) (Fin 2) /
       Math_pow (p2 - p1) (Fin 2))"

definition z_beta_lookup :: "jsnum \<Rightarrow> jsnum" where
  "z_beta_lookup pw =
    (if pw = Fin 80 then Fin 0.84 else if pw = Fin 90 then Fin 1.28 else Fin 0.67)"

section \<open>Arithmetic of JavaScript numbers\<close>

lemma Fin_minus [simp]: "Fin a - Fin b = Fin (a - b)"
  by (simp add: minus_jsnum_def)

lemma Fin_le [simp]: "(Fin a \<le> Fin b) = (a \<le> b)"
  by (auto simp: less_eq_jsnum_def)

lemma jeq_Fin_right: "jeq p (Fin a) = (p = Fin a)"
  by (auto simp: jeq_def)

lemma Math_abs_uminus: "Math_abs (- x) = Math_abs x"
  by (cases x) simp_all

lemma uminus_times_jsnum: "(- a) * b = - (a * (b::jsnum))"
  by (cases a; cases b) (simp_all add: inf_of_sign_def)

lemma times_NaN: "a * NaN = NaN"
  by (cases a) simp_all

section \<open>The error function\<close>

text \<open>In exact arithmetic the coefficients sum to 0.999999999, which leaves \<^verbatim>\<open>1e-9\<close> at zero.\<close>

lemma erf_zero: "erf (Fin 0) = Fin (1 / 10 ^ 9)"
  by (simp add: erf_def Let_def)

lemma erf_finite: "\<exists>y. erf (Fin x) = Fin y"
proof -
  have "0 < 1 + 0.3275911 * \<bar>x\<bar>"
    by (intro add_pos_nonneg mult_nonneg_nonneg) simp_all
  then obtain t where t: "Fin 1.0 / (Fin 1.0 + Fin 0.3275911 * Math_abs (Fin x)) = Fin t"
    by simp
  show ?thesis
    unfolding erf_def Let_def t by (simp del: divide_jsnum.simps)
qed

lemma erf_sign_body:
  "\<exists>Y. \<forall>x. erf x = (if x \<ge> Fin 0 then Fin 1 else Fin (- 1)) * Y (Math_abs x)"
  unfolding erf_def Let_def by (rule exI, rule allI, rule refl)

lemma sign_uminus:
  "x \<noteq> Fin 0 \<Longrightarrow> x \<noteq> NaN \<Longrightarrow>
   (if - x \<ge> Fin 0 then Fin 1 else Fin (- 1)) = - (if x \<ge> Fin 0 then Fin 1 else Fin (- 1))"
  by (cases x) (auto simp: less_eq_jsnum_def)

lemma erf_uminus: "x \<noteq> Fin 0 \<Longrightarrow> erf (- x) = - erf x"
proof -
  assume nz: "x \<noteq> Fin 0"
  obtain Y where Y: "\<And>x. erf x = (if x \<ge> Fin 0 then Fin 1 else Fin (- 1)) * Y (Math_abs x)"
    using erf_sign_body by blast
  show ?thesis
  proof (cases "x = NaN")
    case True
    then show ?thesis
      by (simp add: erf_def Let_def less_eq_jsnum_def minus_jsnum_def times_NaN)
  next
    case False
    have "erf (- x) = (if - x \<ge> Fin 0 then Fin 1 else Fin (- 1)) * Y (Math_abs x)"
      by (simp only: Y Math_abs_uminus)
    also have "\<dots> = (- (if x \<ge> Fin 0 then Fin 1 else Fin (- 1))) * Y (Math_abs x)"
      by (simp only: sign_uminus [OF nz False])
    also have "\<dots> = - ((if x \<ge> Fin 0 then Fin 1 else Fin (- 1)) * Y (Math_abs x))"
      by (rule uminus_times_jsnum)
    also have "\<dots> = - erf x"
      by (simp only: Y)
    finally show ?thesis .
  qed
qed

text \<open>
  C9, as the code has it. Away from zero the approximation is odd, and under JavaScript's
  own equality: both sides are the same finite number. The sign is chosen by
  \<^verbatim>\<open>x >= 0\<close>, and at zero the polynomial leaves a positive remainder (\<^verbatim>\<open>1e-9\<close> in exact
  arithmetic), so zero is the one argument where the two sides differ.
\<close>

theorem erf_odd_nonzero: "x \<noteq> 0 \<Longrightarrow> jeq (erf (- Fin x)) (- erf (Fin x))"
proof -
  assume "x \<noteq> 0"
  then have "erf (- Fin x) = - erf (Fin x)"
    by (intro erf_uminus) simp
  moreover obtain y where "erf (Fin x) = Fin y"
    using erf_finite by blast
  ultimately show ?thesis
    by (simp add: jeq_def)
qed

theorem erf_odd_nonzero_witness: "jeq (erf (- Fin 1)) (- erf (Fin 1))"
  using erf_odd_nonzero [of 1] by simp

text \<open>
  C9 as stated fails at zero: \<^verbatim>\<open>erf(-0)\<close> and \<^verbatim>\<open>erf(0)\<close> are the same positive number,
  which is not its own negation.
\<close>

theorem erf_not_odd_at_zero: "\<not> jeq (erf (- Fin 0)) (- erf (Fin 0))"
  by (simp add: jeq_def erf_def Let_def)

section \<open>The designer's sample-size helper\<close>

text \<open>
  C10: the helper is the closed form at the constant quantile 1.96 and at the power
  quantile of the three-way table, whatever its \<^verbatim>\<open>alpha\<close> argument; so two powers outside
  80 and 90 give the same sample size.
\<close>

theorem calculateSampleSize_lookup:
  "calculateSampleSize b e pw a =
     closed_form_n (Fin 1.96) (z_beta_lookup pw) (b / Fin 100) (b / Fin 100 * (Fin 1 + e / Fin 100))
   \<and> (pw \<notin> {Fin 80, Fin 90} \<and> pw' \<notin> {Fin 80, Fin 90} \<longrightarrow>
        calculateSampleSize b e pw a = calculateSampleSize b e pw' a)"
  by (simp add: calculateSampleSize_def closed_form_n_def z_beta_lookup_def Let_def jeq_Fin_right)

theorem calculateSampleSize_lookup_witness:
  "calculateSampleSize (Fin 5) (Fin 20) (Fin 70) (Fin 0.05) =
     closed_form_n (Fin 1.96) (Fin 0.67) (Fin 0.05) (Fin 0.06)
   \<and> calculateSampleSize (Fin 5) (Fin 20) (Fin 70) (Fin 0.05) =
       calculateSampleSize (Fin 5) (Fin 20) (Fin 95) (Fin 0.05)"
proof -
  note th = calculateSampleSize_lookup [of "Fin 5" "Fin 20" "Fin 70" "Fin 0.05" "Fin 95"]
  have "calculateSampleSize (Fin 5) (Fin 20) (Fin 70) (Fin 0.05) =
          closed_form_n (Fin 1.96) (Fin 0.67) (Fin 0.05) (Fin 0.06)"
    using th [THEN conjunct1] by (simp add: z_beta_lookup_def)
  moreover have "calculateSampleSize (Fin 5) (Fin 20) (Fin 70) (Fin 0.05) =
          calculateSampleSize (Fin 5) (Fin 20) (Fin 95) (Fin 0.05)"
    using th [THEN conjunct2] by simp
  ultimately show ?thesis by (rule conjI)
qed


lemma calculateSampleSize_alpha: "calculateSampleSize b e pw a = calculateSampleSize b e pw a'"
  by (simp add: calculateSampleSize_def)

section \<open>The multi-variant designer\<close>

lemma design_step_alpha:
  "design_step (config\<lparr>significance := s\<rparr>) ctrl a = design_step config ctrl a'"
  by (intro ext)
    (simp add: design_step_def calculateSampleSize_alpha [of _ _ _ a a'] split: prod.splits)

text \<open>
  The adjusted level the designer reports is \<^verbatim>\<open>alpha / N\<close>, for \<^verbatim>\<open>N\<close> the number of
  non-control variants.
\<close>

lemma bonferroni_adjustment:
  "find isControl (variants config) = Some ctrl \<Longrightarrow>
   multipleComparisonsAdjustment (performDesignAnalysis config d c) =
     ((Fin 100 - significance config) / Fin 100) /
       Fin (real (length (filter (\<lambda>v. \<not> isControl v) (variants config))))"
  by (simp add: performDesignAnalysis_def Let_def calculateBonferroniAdjustment_def)

text \<open>
  C1, where the code departs from it. The designer computes \<^verbatim>\<open>adjustedAlpha = alpha / N\<close>
  and hands it to \<^const>\<open>calculateSampleSize\<close>, which never reads it: the per-variant sample
  sizes are the same at every significance level, while the adjusted level itself moves
  (0.05 at 95%, 0.01 at 99% for the default two-variant design).
\<close>

theorem designer_sample_size_ignores_alpha:
  "sampleSizePerVariant (performDesignAnalysis (config\<lparr>significance := s\<rparr>) d c) =
   sampleSizePerVariant (performDesignAnalysis (config\<lparr>significance := s'\<rparr>) d c)
   \<and> multipleComparisonsAdjustment
       (performDesignAnalysis (DEFAULT_EXPERIMENT_CONFIG\<lparr>significance := Fin 95\<rparr>) d c) = Fin 0.05
   \<and> multipleComparisonsAdjustment
       (performDesignAnalysis (DEFAULT_EXPERIMENT_CONFIG\<lparr>significance := Fin 99\<rparr>) d c) = Fin 0.01"
proof (intro conjI)
  show "sampleSizePerVariant (performDesignAnalysis (config\<lparr>significance := s\<rparr>) d c) =
        sampleSizePerVariant (performDesignAnalysis (config\<lparr>significance := s'\<rparr>) d c)"
  proof (cases "find isControl (variants config)")
    case None
    then show ?thesis by (simp add: performDesignAnalysis_def)
  next
    case (Some ctrl)
    then show ?thesis
      by (simp add: performDesignAnalysis_def Let_def design_step_alpha [where a' = "Fin 0"])
  qed
  show "multipleComparisonsAdjustment
       (performDesignAnalysis (DEFAULT_EXPERIMENT_CONFIG\<lparr>significance := Fin 95\<rparr>) d c) = Fin 0.05"
    by (simp add: performDesignAnalysis_def Let_def calculateBonferroniAdjustment_def
        DEFAULT_EXPERIMENT_CONFIG_def)
  show "multipleComparisonsAdjustment
       (performDesignAnalysis (DEFAULT_EXPERIMENT_CONFIG\<lparr>significance := Fin 99\<rparr>) d c) = Fin 0.01"
    by (simp add: performDesignAnalysis_def Let_def calculateBonferroniAdjustment_def
        DEFAULT_EXPERIMENT_CONFIG_def)
qed

lemma div_Fin_zero: "x / Fin 0 \<in> {NaN, PInf, NInf}"
  by (cases x) (simp_all add: inf_of_sign_def)

lemma div_Fin_zero_neq: "x / Fin 0 \<noteq> Fin 0"
  using div_Fin_zero [of x] by auto

lemma design_step_control:
  "fst (design_step config ctrl a acc v) (id_v ctrl) \<noteq> None"
  by (simp add: design_step_def Let_def split: prod.splits)

lemma foldl_design_step_control:
  "vs \<noteq> [] \<Longrightarrow> fst (foldl (design_step config ctrl a) acc vs) (id_v ctrl) \<noteq> None"
  by (induction vs rule: rev_induct) (simp_all add: design_step_control)

text \<open>
  C5, as the code has it. The all-zero analysis is returned for the designs with no
  control variant and for no other: with a control present and no treatment the adjusted
  level is a division by zero, never 0, and with a treatment the control's sample size
  is entered in the dictionary. The number of controls and the allocation total are not
  inspected.
\<close>

theorem sentinel_iff_no_control:
  "(performDesignAnalysis config d c = zero_analysis) = (find isControl (variants config) = None)"
proof (cases "find isControl (variants config)")
  case None
  then show ?thesis by (simp add: performDesignAnalysis_def)
next
  case (Some ctrl)
  let ?ts = "filter (\<lambda>v. \<not> isControl v) (variants config)"
  have "performDesignAnalysis config d c \<noteq> zero_analysis"
  proof (cases "?ts = []")
    case True
    then have "multipleComparisonsAdjustment (performDesignAnalysis config d c) \<noteq> Fin 0"
      using Some
      by (simp add: performDesignAnalysis_def Let_def calculateBonferroniAdjustment_def
          div_Fin_zero_neq)
    then show ?thesis by (auto simp: zero_analysis_def)
  next
    case False
    have "sampleSizePerVariant (performDesignAnalysis config d c) (id_v ctrl) \<noteq> None"
      using Some foldl_design_step_control [OF False]
      by (simp add: performDesignAnalysis_def Let_def)
    then show ?thesis by (auto simp: zero_analysis_def)
  qed
  with Some show ?thesis by simp
qed

theorem sentinel_iff_no_control_witness:
  "performDesignAnalysis (DEFAULT_EXPERIMENT_CONFIG\<lparr>variants := []\<rparr>) (Fin 1000) (Fin 0.5)
     = zero_analysis
   \<and> performDesignAnalysis DEFAULT_EXPERIMENT_CONFIG (Fin 1000) (Fin 0.5) \<noteq> zero_analysis"
  using sentinel_iff_no_control [of "DEFAULT_EXPERIMENT_CONFIG\<lparr>variants := []\<rparr>" "Fin 1000" "Fin 0.5"]
    sentinel_iff_no_control [of DEFAULT_EXPERIMENT_CONFIG "Fin 1000" "Fin 0.5"]
  by (simp add: DEFAULT_EXPERIMENT_CONFIG_def)

text \<open>
  C5 as stated fails on two designs: the default one with the treatment's allocation
  lowered to 40 (total 90), and one with two control variants and one treatment. Both get
  an analysis at the adjusted level 0.05, not the all-zero one, and the function has no
  other outcome.
\<close>

theorem invalid_designs_analysed:
  "totalTrafficAllocation (updateTotalAllocation (DEFAULT_EXPERIMENT_CONFIG\<lparr>variants :=
       [\<lparr>id_v = ''control'', name_v = ''Control (A)'', description_v = ''Current version'',
         trafficAllocation = Fin 50, expectedConversionRate = Fin 5, isControl = True\<rparr>,
        \<lparr>id_v = ''treatment'', name_v = ''Treatment (B)'', description_v = ''New version'',
         trafficAllocation = Fin 40, expectedConversionRate = Fin 6, isControl = False\<rparr>]\<rparr>))
     = Fin 90
   \<and> performDesignAnalysis (updateTotalAllocation (DEFAULT_EXPERIMENT_CONFIG\<lparr>variants :=
       [\<lparr>id_v = ''control'', name_v = ''Control (A)'', description_v = ''Current version'',
         trafficAllocation = Fin 50, expectedConversionRate = Fin 5, isControl = True\<rparr>,
        \<lparr>id_v = ''treatment'', name_v = ''Treatment (B)'', description_v = ''New version'',
         trafficAllocation = Fin 40, expectedConversionRate = Fin 6, isControl = False\<rparr>]\<rparr>))
       (Fin 1000) (Fin 0.5) \<noteq> zero_analysis
   \<and> performDesignAnalysis (updateTotalAllocation (DEFAULT_EXPERIMENT_CONFIG\<lparr>variants :=
       [\<lparr>id_v = ''control'', name_v = ''Control (A)'', description_v = ''Current version'',
         trafficAllocation = Fin 40, expectedConversionRate = Fin 5, isControl = True\<rparr>,
        \<lparr>id_v = ''control2'', name_v = ''Control (B)'', description_v = ''Current version'',
         trafficAllocation = Fin 30, expectedConversionRate = Fin 5, isControl = True\<rparr>,
        \<lparr>id_v = ''treatment'', name_v = ''Treatment (C)'', description_v = ''New version'',
         trafficAllocation = Fin 30, expectedConversionRate = Fin 6, isControl = False\<rparr>]\<rparr>))
       (Fin 1000) (Fin 0.5) \<noteq> zero_analysis"
proof (intro conjI)
  let ?c90 = "updateTotalAllocation (DEFAULT_EXPERIMENT_CONFIG\<lparr>variants :=
       [\<lparr>id_v = ''control'', name_v = ''Control (A)'', description_v = ''Current version'',
         trafficAllocation = Fin 50, expectedConversionRate = Fin 5, isControl = True\<rparr>,
        \<lparr>id_v = ''treatment'', name_v = ''Treatment (B)'', description_v = ''New version'',
         trafficAllocation = Fin 40, expectedConversionRate = Fin 6, isControl = False\<rparr>]\<rparr>)"
  let ?c2 = "updateTotalAllocation (DEFAULT_EXPERIMENT_CONFIG\<lparr>variants :=
       [\<lparr>id_v = ''control'', name_v = ''Control (A)'', description_v = ''Current version'',
         trafficAllocation = Fin 40, expectedConversionRate = Fin 5, isControl = True\<rparr>,
        \<lparr>id_v = ''control2'', name_v = ''Control (B)'', description_v = ''Current version'',
         trafficAllocation = Fin 30, expectedConversionRate = Fin 5, isControl = True\<rparr>,
        \<lparr>id_v = ''treatment'', name_v = ''Treatment (C)'', description_v = ''New version'',
         trafficAllocation = Fin 30, expectedConversionRate = Fin 6, isControl = False\<rparr>]\<rparr>)"
  show "totalTrafficAllocation ?c90 = Fin 90"
    by (simp add: updateTotalAllocation_def DEFAULT_EXPERIMENT_CONFIG_def)
  have "multipleComparisonsAdjustment (performDesignAnalysis ?c90 (Fin 1000) (Fin 0.5)) = Fin 0.05"
    by (simp add: updateTotalAllocation_def DEFAULT_EXPERIMENT_CONFIG_def
        performDesignAnalysis_def Let_def calculateBonferroniAdjustment_def)
  then show "performDesignAnalysis ?c90 (Fin 1000) (Fin 0.5) \<noteq> zero_analysis"
    by (auto simp: zero_analysis_def)
  have "multipleComparisonsAdjustment (performDesignAnalysis ?c2 (Fin 1000) (Fin 0.5)) = Fin 0.05"
    by (simp add: updateTotalAllocation_def DEFAULT_EXPERIMENT_CONFIG_def
        performDesignAnalysis_def Let_def calculateBonferroniAdjustment_def)
  then show "performDesignAnalysis ?c2 (Fin 1000) (Fin 0.5) \<noteq> zero_analysis"
    by (auto simp: zero_analysis_def)
qed

section \<open>The two-sample test\<close>

text \<open>
  The interval, in percentage points, is the difference of the rates plus and minus 1.96
  unpooled standard errors.
\<close>

lemma confidenceInterval_formula:
  "confidenceInterval (calculateSignificance vA cA vB cB l) =
    (let pA = cA / vA; pB = cB / vB;
         se = Math_sqrt (pA * (Fin 1 - pA) / vA + pB * (Fin 1 - pB) / vB)
     in ((pB - pA - Fin 1.96 * se) * Fin 100, (pB - pA + Fin 1.96 * se) * Fin 100))"
  by (simp add: calculateSignificance_def Let_def)

text \<open>
  C2, where the code departs from it. The interval is built from the constant
  \<^verbatim>\<open>zCrit = 1.96\<close>; the confidence level enters the significance threshold only, so the
  interval is the same at every level.
\<close>

theorem confidenceInterval_ignores_level:
  "confidenceInterval (calculateSignificance vA cA vB cB l) =
   confidenceInterval (calculateSignificance vA cA vB cB l')"
  by (simp add: calculateSignificance_def Let_def)

text \<open>
  C3, where the code departs from it. \<^const>\<open>calculateSignificance\<close> divides by the pooled
  standard error unguarded, so when that is zero the z-score is NaN or an infinity, never
  0; with no conversions in either arm it is NaN.
\<close>

theorem zScore_unguarded:
  "standardError (calculateSignificance vA cA vB cB l) = Fin 0 \<Longrightarrow>
   zScore (calculateSignificance vA cA vB cB l) \<in> {NaN, PInf, NInf}"
  by (simp add: calculateSignificance_def Let_def div_Fin_zero del: insert_iff)

theorem zScore_unguarded_witness:
  "standardError (calculateSignificance (Fin 1000) (Fin 0) (Fin 1000) (Fin 0) (Fin 95)) = Fin 0
   \<and> zScore (calculateSignificance (Fin 1000) (Fin 0) (Fin 1000) (Fin 0) (Fin 95))
       \<in> {NaN, PInf, NInf}"
proof -
  have se: "standardError (calculateSignificance (Fin 1000) (Fin 0) (Fin 1000) (Fin 0) (Fin 95))
    = Fin 0"
    by (simp add: calculateSignificance_def Let_def)
  from se zScore_unguarded [OF se] show ?thesis by (rule conjI)
qed

lemma zScore_no_conversions:
  "zScore (calculateSignificance (Fin 1000) (Fin 0) (Fin 1000) (Fin 0) (Fin 95)) = NaN"
  by (simp add: calculateSignificance_def Let_def inf_of_sign_def)

text \<open>The sequential calculator's z-score has the guard, and returns 0 on the same data.\<close>

lemma calculateCurrentZScore_guarded:
  "calculateCurrentZScore
     \<lparr>currentSampleSize = Fin 2000, maxSampleSize = Fin 2000, controlConversions = Fin 0,
      treatmentConversions = Fin 0, alpha = Fin 0.05, beta = Fin 0.2, minimumEffect = Fin 20,
      enableFutility = True, enableHarm = True, boundaryType = ''obrien-fleming''\<rparr> = Fin 0"
  by (simp add: calculateCurrentZScore_def Let_def jeq_def)


theorem designer_sample_size_ignores_alpha_witness:
  "sampleSizePerVariant
     (performDesignAnalysis (DEFAULT_EXPERIMENT_CONFIG\<lparr>significance := Fin 95\<rparr>) (Fin 1000) (Fin 0.5)) =
   sampleSizePerVariant
     (performDesignAnalysis (DEFAULT_EXPERIMENT_CONFIG\<lparr>significance := Fin 99\<rparr>) (Fin 1000) (Fin 0.5))"
  using designer_sample_size_ignores_alpha
    [where config = DEFAULT_EXPERIMENT_CONFIG and s = "Fin 95" and s' = "Fin 99"
       and d = "Fin 1000" and c = "Fin 0.5"]
  by (rule conjunct1)

theorem confidenceInterval_ignores_level_witness:
  "confidenceInterval (calculateSignificance (Fin 1000) (Fin 50) (Fin 1000) (Fin 60) (Fin 95)) =
   confidenceInterval (calculateSignificance (Fin 1000) (Fin 50) (Fin 1000) (Fin 60) (Fin 99))"
  by (rule confidenceInterval_ignores_level)

section \<open>The inverse normal\<close>

lemma NaN_ops [simp]:
  "NaN + a = NaN" "a + NaN = NaN" "NaN * a = NaN" "a * NaN = NaN"
  "NaN / a = NaN" "a / NaN = NaN" "a - NaN = NaN" "NaN - a = NaN"
  by (cases a; simp add: minus_jsnum_def)+

lemma normalInverse_zero: "normalInverse (Fin 0) = NaN"
  by (simp add: normalInverse_def Let_def inf_of_sign_def)

lemma normalInverse_one: "normalInverse (Fin 1) = NaN"
  by (simp add: normalInverse_def Let_def inf_of_sign_def less_eq_jsnum_def)

lemma normalInverse_half: "normalInverse (Fin 0.5) = Fin 0"
  by (simp add: normalInverse_def Let_def inf_of_sign_def less_eq_jsnum_def)

lemma normalInverse_neg: "x < 0 \<Longrightarrow> normalInverse (Fin x) = NaN"
  by (simp add: normalInverse_def Let_def)

lemma normalInverse_gt1: "1 < x \<Longrightarrow> normalInverse (Fin x) = NaN"
  by (simp add: normalInverse_def Let_def less_eq_jsnum_def)

lemma normalInverse_inf: "normalInverse PInf = NaN" "normalInverse NInf = NaN"
  by (simp_all add: normalInverse_def Let_def less_eq_jsnum_def minus_jsnum_def)

text \<open>
  C4, where the code departs from it. The \<^const>\<open>normalInverse\<close> of
  utils/statisticalCalculations has no guard: outside the open unit interval the
  logarithm is NaN or the quotient is infinity over infinity, and the result is NaN for
  every \<^verbatim>\<open>p <= 0\<close> and every \<^verbatim>\<open>p >= 1\<close>.
\<close>

theorem normalInverse_unguarded:
  "p \<le> Fin 0 \<or> Fin 1 \<le> p \<Longrightarrow> normalInverse p = NaN"
proof (cases p)
  case (Fin x)
  assume "p \<le> Fin 0 \<or> Fin 1 \<le> p"
  with Fin have "x < 0 \<or> x = 0 \<or> x = 1 \<or> 1 < x"
    by (auto simp: less_eq_jsnum_def)
  with Fin show ?thesis
    using normalInverse_neg normalInverse_gt1 normalInverse_zero normalInverse_one by blast
qed (simp_all add: normalInverse_inf less_eq_jsnum_def)

theorem normalInverse_unguarded_witness:
  "normalInverse (Fin 0) = NaN \<and> normalInverse (Fin 1) = NaN"
  using normalInverse_unguarded [of "Fin 0"] normalInverse_unguarded [of "Fin 1"] by simp

text \<open>
  The sequential calculator's copy is the one that clamps, and both return 0 at one half.
\<close>

lemma seq_normalInverse_clamps:
  "p \<le> Fin 0 \<Longrightarrow> seq_normalInverse p = NInf"
  "\<not> p \<le> Fin 0 \<Longrightarrow> Fin 1 \<le> p \<Longrightarrow> seq_normalInverse p = PInf"
  "seq_normalInverse (Fin 0.5) = Fin 0"
  by (simp_all add: seq_normalInverse_def Let_def jeq_def)

section \<open>Sequential monitoring\<close>

lemma less_imp_le_jsnum: "(a::jsnum) < b \<Longrightarrow> a \<le> b"
  by (simp add: less_eq_jsnum_def)

text \<open>
  C6: the decision of \<^const>\<open>performSequentialAnalysis\<close> is \<^const>\<open>recommend\<close> at the current
  z-score and bounds, and \<^const>\<open>recommend\<close> checks success, then harm, then futility;
  comparisons are JavaScript's, so a NaN z-score falls through to \<^verbatim>\<open>continue\<close>. A z-score
  of 3 above the upper bound stops for success whatever the other two bounds are.
\<close>

theorem recommend_rule:
  "(upper b \<le> z \<longrightarrow> recommend z b harm fut = stop_success)
   \<and> (\<not> upper b \<le> z \<and> z \<le> lower b \<longrightarrow>
        recommend z b harm fut = (if harm then stop_harm else continue))
   \<and> (\<not> upper b \<le> z \<and> \<not> z \<le> lower b \<and> fut \<and> z \<le> futility b \<longrightarrow>
        recommend z b harm fut = stop_futility)
   \<and> (\<not> upper b \<le> z \<and> \<not> z \<le> lower b \<and> \<not> (fut \<and> z \<le> futility b) \<longrightarrow>
        recommend z b harm fut = continue)
   \<and> (upper b < Fin 3 \<longrightarrow> recommend (Fin 3) b harm fut = stop_success)
   \<and> recommendation (performSequentialAnalysis st) =
       recommend (calculateCurrentZScore st)
         (calculateSequentialBounds st (currentSampleSize st) (maxSampleSize st))
         (enableHarm st) (enableFutility st)"
  by (auto simp: recommend_def performSequentialAnalysis_def Let_def less_imp_le_jsnum)

theorem recommend_rule_witness:
  "recommend (Fin 3) \<lparr>upper = Fin 2, lower = Fin 5, futility = PInf\<rparr> False True = stop_success
   \<and> recommend (Fin (- 3)) \<lparr>upper = Fin 2, lower = Fin (- 2), futility = Fin 0\<rparr> True True = stop_harm
   \<and> recommend (Fin (- 3)) \<lparr>upper = Fin 2, lower = Fin (- 2), futility = Fin 0\<rparr> False True = continue
   \<and> recommend (Fin (- 1)) \<lparr>upper = Fin 2, lower = Fin (- 2), futility = Fin 0\<rparr> True True = stop_futility
   \<and> recommend (Fin (- 1)) \<lparr>upper = Fin 2, lower = Fin (- 2), futility = Fin 0\<rparr> True False = continue
   \<and> recommend NaN \<lparr>upper = Fin 2, lower = Fin (- 2), futility = Fin 0\<rparr> True True = continue"
proof -
  let ?b = "\<lparr>upper = Fin 2, lower = Fin (- 2), futility = Fin 0\<rparr>"
  have 1: "recommend (Fin 3) \<lparr>upper = Fin 2, lower = Fin 5, futility = PInf\<rparr> False True = stop_success"
    using recommend_rule [of "\<lparr>upper = Fin 2, lower = Fin 5, futility = PInf\<rparr>" "Fin 3" False True]
    by simp
  have 2: "recommend (Fin (- 3)) ?b True True = stop_harm"
    using recommend_rule [of ?b "Fin (- 3)" True True] by simp
  have 3: "recommend (Fin (- 3)) ?b False True = continue"
    using recommend_rule [of ?b "Fin (- 3)" False True] by simp
  have 4: "recommend (Fin (- 1)) ?b True True = stop_futility"
    using recommend_rule [of ?b "Fin (- 1)" True True] by simp
  have 5: "recommend (Fin (- 1)) ?b True False = continue"
    using recommend_rule [of ?b "Fin (- 1)" True False] by simp
  have 6: "recommend NaN ?b True True = continue"
    using recommend_rule [of ?b NaN True True] by (simp add: less_eq_jsnum_def)
  from 1 2 3 4 5 6 show ?thesis by blast
qed

subsection \<open>Rounding is monotone\<close>




































section \<open>The bisection for the minimum detectable effect\<close>

text \<open>
  From any state within the cap, the loop exits within the cap, and at exit its condition
  is false: the bracket is no wider than 0.1 or the fifty iterations are used up.
\<close>

lemma bisect_loop_bound:
  "k \<le> 50 \<Longrightarrow> bisect_loop b tt n tp al (lo, hi, k) = (lo', hi', k') \<Longrightarrow>
   k \<le> k' \<and> k' \<le> 50 \<and> \<not> (Fin 0.1 < hi' - lo' \<and> k' < 50)"
proof (induction b tt n tp al "(lo, hi, k)" arbitrary: lo hi k rule: bisect_loop.induct)
  case (1 b tt n tp al lo hi k)
  show ?case
  proof (cases "Fin 0.1 < hi - lo \<and> k < 50")
    case False
    with "1.prems" show ?thesis
      by (subst (asm) bisect_loop.simps) auto
  next
    case True
    let ?mid = "(lo + hi) / Fin 2"
    show ?thesis
    proof (cases "calculatePower b tt n ?mid al < tp")
      case lt: True
      from True lt "1.prems"(2)
      have "bisect_loop b tt n tp al (?mid, hi, k + 1) = (lo', hi', k')"
        by (subst (asm) bisect_loop.simps) (simp add: Let_def)
      with "1.hyps"(1) [OF True refl refl lt] True show ?thesis by auto
    next
      case ge: False
      from True ge "1.prems"(2)
      have "bisect_loop b tt n tp al (lo, ?mid, k + 1) = (lo', hi', k')"
        by (subst (asm) bisect_loop.simps) (simp add: Let_def)
      with "1.hyps"(2) [OF True refl refl ge] True show ?thesis by auto
    qed
  qed
qed

lemma width_gt: "k < 10 \<Longrightarrow> (1 / 10 :: real) < 99 / 2 ^ k"
proof -
  assume "k < 10"
  then have "(2::real) ^ k \<le> 2 ^ 9"
    by (intro power_increasing) simp_all
  then have "(2::real) ^ k < 990" by simp
  then show ?thesis by (simp add: field_simps)
qed

text \<open>
  The bracket halves at every step whichever way the power test goes, so from a bracket
  of width \<^verbatim>\<open>99 / 2^k\<close> after \<^verbatim>\<open>k\<close> steps the loop stops after the tenth.
\<close>

lemma bisect_loop_ten:
  "k \<le> 10 \<Longrightarrow>
   \<exists>lo'. bisect_loop b tt n tp al (Fin lo, Fin (lo + 99 / 2 ^ k), k) =
           (Fin lo', Fin (lo' + 99 / 2 ^ 10), 10)"
proof (induction "10 - k" arbitrary: k lo)
  case 0
  then have k: "k = 10" by simp
  show ?case unfolding k by (subst bisect_loop.simps) simp
next
  case (Suc d)
  then have k: "k < 10" by simp
  have w: "Fin 0.1 < Fin (lo + 99 / 2 ^ k) - Fin lo"
    using width_gt [OF k] by simp
  have mid: "(Fin lo + Fin (lo + 99 / 2 ^ k)) / Fin 2 = Fin (lo + 99 / 2 ^ (k + 1))"
    by (simp add: field_simps)
  have hi: "lo + 99 / 2 ^ k = (lo + 99 / 2 ^ (k + 1)) + 99 / 2 ^ (k + 1)"
    by (simp add: field_simps)
  from Suc have d: "d = 10 - (k + 1)" "k + 1 \<le> 10" by simp_all
  obtain l1 where l1:
    "bisect_loop b tt n tp al
       (Fin (lo + 99 / 2 ^ (k + 1)), Fin ((lo + 99 / 2 ^ (k + 1)) + 99 / 2 ^ (k + 1)), k + 1) =
     (Fin l1, Fin (l1 + 99 / 2 ^ 10), 10)"
    using Suc.hyps(1) [OF d] by blast
  obtain l2 where l2:
    "bisect_loop b tt n tp al (Fin lo, Fin (lo + 99 / 2 ^ (k + 1)), k + 1) =
     (Fin l2, Fin (l2 + 99 / 2 ^ 10), 10)"
    using Suc.hyps(1) [OF d] by blast
  have "bisect_loop b tt n tp al (Fin lo, Fin (lo + 99 / 2 ^ k), k) =
        (if calculatePower b tt n (Fin (lo + 99 / 2 ^ (k + 1))) al < tp
         then bisect_loop b tt n tp al (Fin (lo + 99 / 2 ^ (k + 1)), Fin (lo + 99 / 2 ^ k), k + 1)
         else bisect_loop b tt n tp al (Fin lo, Fin (lo + 99 / 2 ^ (k + 1)), k + 1))"
    using w k by (subst bisect_loop.simps) (simp only: mid Let_def, simp)
  then show ?case
    using l1 l2 hi by (metis (full_types))
qed

text \<open>
  C8: \<^const>\<open>bisect_loop\<close> is a total function (its iteration counter is its measure), and
  from the bracket [1, 100] it returns after ten iterations, within the cap of fifty, with
  a finite bracket narrower than 0.1 whose midpoint \<^const>\<open>calculateMinimumEffect\<close> returns,
  for all inputs.
\<close>

theorem calculateMinimumEffect_terminates:
  "\<exists>lo hi k. bisect_loop b tt n tp al (Fin 1, Fin 100, 0) = (Fin lo, Fin hi, k)
     \<and> k = 10 \<and> k \<le> 50 \<and> hi - lo < 0.1
     \<and> \<not> (Fin 0.1 < Fin hi - Fin lo \<and> k < 50)
     \<and> calculateMinimumEffect b tt n tp al = Fin ((lo + hi) / 2)"
proof -
  obtain lo' where
    "bisect_loop b tt n tp al (Fin 1, Fin (1 + 99 / 2 ^ 0), 0) =
       (Fin lo', Fin (lo' + 99 / 2 ^ 10), 10)"
    using bisect_loop_ten [of 0 b tt n tp al 1] by blast
  then have r: "bisect_loop b tt n tp al (Fin 1, Fin 100, 0) =
       (Fin lo', Fin (lo' + 99 / 2 ^ 10), 10)"
    by simp
  have "calculateMinimumEffect b tt n tp al = Fin ((lo' + (lo' + 99 / 2 ^ 10)) / 2)"
    unfolding calculateMinimumEffect_def r by simp
  with r show ?thesis
    by (intro exI [of _ lo'] exI [of _ "lo' + 99 / 2 ^ 10"] exI [of _ 10]) simp
qed

theorem calculateMinimumEffect_terminates_witness:
  "\<exists>lo hi k. bisect_loop (Fin 5) ''two-tailed'' (Fin 1000) (Fin 80) (Fin 0.05) (Fin 1, Fin 100, 0)
       = (Fin lo, Fin hi, k)
     \<and> k = 10 \<and> hi - lo < 0.1
     \<and> calculateMinimumEffect (Fin 5) ''two-tailed'' (Fin 1000) (Fin 80) (Fin 0.05)
         = Fin ((lo + hi) / 2)"
  using calculateMinimumEffect_terminates [of "Fin 5" "''two-tailed''" "Fin 1000" "Fin 80" "Fin 0.05"]
  by blast

end
